theory Spec2Isabelle
  imports Complex_Main "HOL-Library.Product_Lexorder"
begin

section \<open>Values\<close>

text \<open>
  A float of the program is a finite number, an infinity or NaN. Arithmetic on finite
  values is exact here (rationals): rounding, overflow to an infinity and the sign of
  zero are not represented. The special values follow IEEE 754 as numpy applies it:
  dividing by zero gives an infinity or NaN, never an exception.
\<close>

datatype fl = Fin rat | PInf | NInf | NaN

fun isnan :: "fl \<Rightarrow> bool" where
  "isnan NaN = True"
| "isnan _ = False"


fun fneg :: "fl \<Rightarrow> fl" where
  "fneg (Fin a) = Fin (- a)"
| "fneg PInf = NInf"
| "fneg NInf = PInf"
| "fneg NaN = NaN"

fun fadd :: "fl \<Rightarrow> fl \<Rightarrow> fl" where
  "fadd (Fin a) (Fin b) = Fin (a + b)"
| "fadd (Fin a) y = y"
| "fadd x (Fin b) = x"
| "fadd PInf PInf = PInf"
| "fadd NInf NInf = NInf"
| "fadd _ _ = NaN"

definition fsub :: "fl \<Rightarrow> fl \<Rightarrow> fl" where
  "fsub x y = fadd x (fneg y)"

text \<open>The sign of a value: 1, -1, or 0 for a zero and for NaN.\<close>

fun fsgn :: "fl \<Rightarrow> int" where
  "fsgn (Fin a) = (if 0 < a then 1 else if a < 0 then - 1 else 0)"
| "fsgn PInf = 1"
| "fsgn NInf = - 1"
| "fsgn NaN = 0"

definition signed_inf :: "int \<Rightarrow> fl" where
  "signed_inf s = (if 0 < s then PInf else if s < 0 then NInf else NaN)"

fun fmul :: "fl \<Rightarrow> fl \<Rightarrow> fl" where
  "fmul (Fin a) (Fin b) = Fin (a * b)"
| "fmul NaN _ = NaN"
| "fmul _ NaN = NaN"
| "fmul x y = signed_inf (fsgn x * fsgn y)"

fun fdiv :: "fl \<Rightarrow> fl \<Rightarrow> fl" where
  "fdiv (Fin a) (Fin b) = (if b = 0 then signed_inf (fsgn (Fin a)) else Fin (a / b))"
| "fdiv NaN _ = NaN"
| "fdiv _ NaN = NaN"
| "fdiv (Fin a) _ = Fin 0"
| "fdiv x (Fin b) = signed_inf (fsgn x * (if b < 0 then - 1 else 1))"
| "fdiv _ _ = NaN"

text \<open>The comparison \<open>x <= y\<close> of two floats: false as soon as one side is NaN.\<close>

fun fle :: "fl \<Rightarrow> fl \<Rightarrow> bool" where
  "fle NaN _ = False"
| "fle _ NaN = False"
| "fle NInf _ = True"
| "fle _ PInf = True"
| "fle (Fin a) (Fin b) = (a \<le> b)"
| "fle _ _ = False"

text \<open>
  A cell of a pandas table: a string, a float, an integer, a boolean (what
  \<open>read_csv\<close> infers), or a timestamp (what \<open>to_datetime\<close> produces; \<open>NaT\<close> is the
  missing timestamp).
\<close>

datatype stamp = Stamp int nat nat | NaT

datatype cell = Str string | Num fl | IntV int | BoolV bool | Time stamp

datatype exn =
    FileNotFoundError string
  | KeyError string
  | ValueError string
  | TypeError string
  | AttributeError string
  | LibraryError string

text \<open>
  A table: the column names in order, and the column stored under each name. Reading
  \<open>df[c]\<close> for a name that is not a column raises KeyError; assigning \<open>df[c] = v\<close>
  replaces the column in place, or appends a new last column.
\<close>

record frame =
  columns :: "string list"
  data :: "string \<Rightarrow> cell list"

definition getitem :: "frame \<Rightarrow> string \<Rightarrow> exn + cell list" where
  "getitem df c = (if c \<in> set (columns df) then Inr (data df c) else Inl (KeyError c))"

definition setitem :: "frame \<Rightarrow> string \<Rightarrow> cell list \<Rightarrow> frame" where
  "setitem df c v =
     \<lparr>columns = (if c \<in> set (columns df) then columns df else columns df @ [c]),
      data = (data df)(c := v)\<rparr>"

text \<open>
  One row of \<open>results_df\<close> (the dictionary stored under a country) and the global
  metrics: the seven entries computed from the percentage changes, then the two added by
  the t-test.
\<close>

record stats =
  pre_covid_mean :: fl
  during_covid_mean :: fl
  post_covid_mean :: fl
  pct_change_during_covid :: fl

type_synonym results = "(string \<times> stats) list"

record summary =
  mean_pct_change :: fl
  median_pct_change :: fl
  std_pct_change :: fl
  most_impacted_country :: "string option"
  most_impacted_value :: fl
  least_impacted_country :: "string option"
  least_impacted_value :: fl

record metrics = summary +
  t_statistic :: fl
  p_value :: fl

text \<open>
  What the program takes from its libraries and from the file system: whether a path
  exists, \<open>pandas.read_csv\<close>, Python's \<open>float\<close> on a string (\<open>None\<close> for
  ValueError), the parse of one date cell under the format \<open>%m/%d/%y\<close>, the sample
  standard deviation, what \<open>idxmin\<close> and \<open>idxmax\<close> do on a column that is all NaN
  (\<open>None\<close>: the label is NaN, as pandas 2 does; \<open>Some e\<close>: they raise \<open>e\<close>, as
  pandas 3 does), \<open>scipy.stats.ttest_ind\<close>, and the drawing and saving of the four charts
  (\<open>Some e\<close> when matplotlib raises \<open>e\<close>).
\<close>

record env =
  path_exists :: "string \<Rightarrow> bool"
  read_csv :: "string \<Rightarrow> exn + frame"
  str_float :: "string \<Rightarrow> fl option"
  strptime :: "cell \<Rightarrow> exn + stamp"
  series_std :: "fl list \<Rightarrow> fl"
  idx_all_nan :: "exn option"
  ttest_ind :: "cell list \<Rightarrow> cell list \<Rightarrow> exn + fl \<times> fl"
  render :: "results \<Rightarrow> exn option"

section \<open>The cleaner\<close>

text \<open>
  Python's \<open>float(value)\<close>: a string is parsed, a number or boolean is converted, a
  timestamp is a TypeError.
\<close>

fun py_float :: "env \<Rightarrow> cell \<Rightarrow> exn + fl" where
  "py_float E (Str s) =
     (case str_float E s of None \<Rightarrow> Inl (ValueError s) | Some x \<Rightarrow> Inr x)"
| "py_float E (Num x) = Inr x"
| "py_float E (IntV i) = Inr (Fin (of_int i))"
| "py_float E (BoolV b) = Inr (Fin (if b then 1 else 0))"
| "py_float E (Time t) = Inl (TypeError ''float() argument must be a string or a real number'')"

text \<open>
  \<open>value.replace('%', '')\<close> drops every percent sign. The percent sign is one ASCII
  byte and never part of a longer UTF-8 sequence, so dropping the byte is dropping the
  character.
\<close>

definition strip_percent :: "string \<Rightarrow> string" where
  "strip_percent s = filter (\<lambda>c. c \<noteq> CHR ''%'') s"

fun has_percent :: "cell \<Rightarrow> bool" where
  "has_percent (Str s) = (CHR ''%'' \<in> set s)"
| "has_percent _ = False"

fun drop_percent :: "cell \<Rightarrow> cell" where
  "drop_percent (Str s) = Str (strip_percent s)"
| "drop_percent v = v"

text \<open>\<open>clean_percentage\<close>: the bare \<open>except\<close> turns every failure into NaN.\<close>

definition clean_percentage :: "env \<Rightarrow> cell \<Rightarrow> fl" where
  "clean_percentage E v =
     (case (if has_percent v then py_float E (drop_percent v) else py_float E v) of
        Inl e \<Rightarrow> NaN
      | Inr x \<Rightarrow> x)"

text \<open>
  The cleaning loop: for each column name other than Date, the column is replaced by
  the cleaner applied to each of its cells.
\<close>

definition clean_column :: "env \<Rightarrow> string \<Rightarrow> frame \<Rightarrow> frame" where
  "clean_column E c df =
     (if c \<noteq> ''Date'' then setitem df c (map (\<lambda>v. Num (clean_percentage E v)) (data df c))
      else df)"

definition clean_frame :: "env \<Rightarrow> frame \<Rightarrow> frame" where
  "clean_frame E df = fold (clean_column E) (columns df) df"

section \<open>Loading and preprocessing\<close>

definition load :: "env \<Rightarrow> string \<Rightarrow> exn + frame" where
  "load E file_path =
     (if \<not> path_exists E file_path
      then Inl (FileNotFoundError (''The file '' @ file_path @ '' was not found''))
      else read_csv E file_path)"

text \<open>
  \<open>pd.to_datetime(series, format='%m/%d/%y')\<close> parses cell by cell and raises at the
  first cell that does not parse.
\<close>

fun to_datetime :: "env \<Rightarrow> cell list \<Rightarrow> exn + stamp list" where
  "to_datetime E [] = Inr []"
| "to_datetime E (v # vs) =
     (case strptime E v of
        Inl e \<Rightarrow> Inl e
      | Inr t \<Rightarrow> (case to_datetime E vs of Inl e \<Rightarrow> Inl e | Inr ts \<Rightarrow> Inr (t # ts)))"

text \<open>\<open>.dt.year\<close>: the year of a timestamp, NaN for \<open>NaT\<close>.\<close>

fun dt_year :: "stamp \<Rightarrow> cell" where
  "dt_year (Stamp y m d) = IntV y"
| "dt_year NaT = Num NaN"

text \<open>
  The Date column is replaced by its timestamps, then the Year column is assigned from
  the timestamps just stored.
\<close>

definition preprocess :: "env \<Rightarrow> frame \<Rightarrow> exn + frame" where
  "preprocess E df =
     (case getitem df ''Date'' of
        Inl e \<Rightarrow> Inl e
      | Inr dates \<Rightarrow>
          (case to_datetime E dates of
             Inl e \<Rightarrow> Inl e
           | Inr ts \<Rightarrow> Inr (setitem (setitem df ''Date'' (map Time ts)) ''Year'' (map dt_year ts))))"

section \<open>Periods\<close>

text \<open>\<open>Series.isin(years)\<close> and \<open>Series == year\<close> on one cell of the Year column.\<close>

fun isin :: "int list \<Rightarrow> cell \<Rightarrow> bool" where
  "isin ys (IntV y) = (y \<in> set ys)"
| "isin ys _ = False"

fun eq_year :: "int \<Rightarrow> cell \<Rightarrow> bool" where
  "eq_year y (IntV z) = (z = y)"
| "eq_year y _ = False"

text \<open>Boolean indexing \<open>df[mask]\<close>: the rows whose mask entry is true, in every column.\<close>

definition select_rows :: "bool list \<Rightarrow> frame \<Rightarrow> frame" where
  "select_rows m df = df\<lparr>data := \<lambda>c. map snd (filter fst (zip m (data df c)))\<rparr>"

definition period :: "(cell \<Rightarrow> bool) \<Rightarrow> frame \<Rightarrow> exn + frame" where
  "period p df =
     (case getitem df ''Year'' of
        Inl e \<Rightarrow> Inl e
      | Inr years \<Rightarrow> Inr (select_rows (map p years) df))"

definition pre_covid :: "frame \<Rightarrow> exn + frame" where
  "pre_covid df = period (isin [2018, 2019]) df"

definition during_covid :: "frame \<Rightarrow> exn + frame" where
  "during_covid df = period (isin [2020, 2021, 2022]) df"

definition post_covid :: "frame \<Rightarrow> exn + frame" where
  "post_covid df = period (eq_year 2023) df"

section \<open>Reductions of a float column\<close>

text \<open>
  The pandas reductions skip NaN (\<open>skipna=True\<close>). A column read as floats: the country
  columns hold \<open>Num\<close> cells only once cleaned, so the other cases of \<open>as_float\<close> do not
  arise there.
\<close>

fun as_float :: "cell \<Rightarrow> fl" where
  "as_float (Num x) = x"
| "as_float _ = NaN"

definition notna :: "fl list \<Rightarrow> fl list" where
  "notna xs = filter (\<lambda>x. \<not> isnan x) xs"

definition fsum :: "fl list \<Rightarrow> fl" where
  "fsum xs = foldl fadd (Fin 0) xs"

definition nanmean :: "fl list \<Rightarrow> fl" where
  "nanmean xs =
     (let ys = notna xs
      in if ys = [] then NaN else fdiv (fsum ys) (Fin (of_nat (length ys))))"

definition series_mean :: "cell list \<Rightarrow> fl" where
  "series_mean vs = nanmean (map as_float vs)"

definition fmin :: "fl \<Rightarrow> fl \<Rightarrow> fl" where
  "fmin a b = (if fle b a then b else a)"

definition fmax :: "fl \<Rightarrow> fl \<Rightarrow> fl" where
  "fmax a b = (if fle a b then b else a)"

definition nanmin :: "fl list \<Rightarrow> fl" where
  "nanmin xs = (case notna xs of [] \<Rightarrow> NaN | y # ys \<Rightarrow> fold fmin ys y)"

definition nanmax :: "fl list \<Rightarrow> fl" where
  "nanmax xs = (case notna xs of [] \<Rightarrow> NaN | y # ys \<Rightarrow> fold fmax ys y)"

text \<open>
  The sort key of a float: the infinities at the two ends, NaN after everything (pandas
  sorts NaN last).
\<close>

fun sort_rank :: "fl \<Rightarrow> int \<times> rat" where
  "sort_rank NInf = (- 1, 0)"
| "sort_rank (Fin a) = (0, a)"
| "sort_rank PInf = (1, 0)"
| "sort_rank NaN = (2, 0)"

text \<open>
  The median of the values that are not NaN: the middle one of an odd count, the mean of
  the two middle ones of an even count.
\<close>

definition nanmedian :: "fl list \<Rightarrow> fl" where
  "nanmedian xs =
     (let ys = sort_key sort_rank (notna xs); n = length ys
      in if n = 0 then NaN
         else if odd n then ys ! (n div 2)
         else fdiv (fadd (ys ! (n div 2 - 1)) (ys ! (n div 2))) (Fin 2))"

text \<open>
  \<open>idxmin\<close> and \<open>idxmax\<close>: pandas replaces each NaN by plus infinity (minus infinity for
  the maximum) and returns the label at the first position of the extreme value of the
  filled column.
\<close>

definition first_index :: "'a \<Rightarrow> 'a list \<Rightarrow> nat" where
  "first_index x xs = length (takeWhile (\<lambda>y. y \<noteq> x) xs)"

definition fillna :: "fl \<Rightarrow> fl list \<Rightarrow> fl list" where
  "fillna d xs = map (\<lambda>x. if isnan x then d else x) xs"

definition idxmin :: "env \<Rightarrow> (string \<times> fl) list \<Rightarrow> exn + string option" where
  "idxmin E s =
     (if list_all isnan (map snd s)
      then (case idx_all_nan E of None \<Rightarrow> Inr None | Some e \<Rightarrow> Inl e)
      else (let filled = fillna PInf (map snd s)
            in Inr (Some (map fst s ! first_index (nanmin filled) filled))))"

definition idxmax :: "env \<Rightarrow> (string \<times> fl) list \<Rightarrow> exn + string option" where
  "idxmax E s =
     (if list_all isnan (map snd s)
      then (case idx_all_nan E of None \<Rightarrow> Inr None | Some e \<Rightarrow> Inl e)
      else (let filled = fillna NInf (map snd s)
            in Inr (Some (map fst s ! first_index (nanmax filled) filled))))"

section \<open>Aggregation\<close>

definition countries :: "frame \<Rightarrow> string list" where
  "countries df = filter (\<lambda>col. col \<notin> set [''Date'', ''Year'']) (columns df)"

definition pct_change :: "fl \<Rightarrow> fl \<Rightarrow> fl" where
  "pct_change pre_mean during_mean =
     fmul (fdiv (fsub during_mean pre_mean) pre_mean) (Fin 100)"

definition country_stats :: "frame \<Rightarrow> frame \<Rightarrow> frame \<Rightarrow> string \<Rightarrow> stats" where
  "country_stats pre during post country =
     (let pre_mean = series_mean (data pre country);
          during_mean = series_mean (data during country);
          post_mean = series_mean (data post country)
      in \<lparr>pre_covid_mean = pre_mean,
          during_covid_mean = during_mean,
          post_covid_mean = post_mean,
          pct_change_during_covid = pct_change pre_mean during_mean\<rparr>)"

text \<open>
  \<open>results_df\<close>: one row per country, in column order (the names of a table read by
  \<open>read_csv\<close> are distinct, so no dictionary entry is overwritten).
\<close>

definition country_results :: "frame \<Rightarrow> frame \<Rightarrow> frame \<Rightarrow> string list \<Rightarrow> results" where
  "country_results pre during post cs = map (\<lambda>c. (c, country_stats pre during post c)) cs"

text \<open>
  \<open>results_df['pct_change_during_covid']\<close>: with no country the table has no column at
  all and the lookup raises KeyError.
\<close>

definition pct_series :: "results \<Rightarrow> exn + (string \<times> fl) list" where
  "pct_series res =
     (if res = [] then Inl (KeyError ''pct_change_during_covid'')
      else Inr (map (\<lambda>(c, r). (c, pct_change_during_covid r)) res))"

definition global_metrics :: "env \<Rightarrow> results \<Rightarrow> exn + summary" where
  "global_metrics E res =
     (case pct_series res of
        Inl e \<Rightarrow> Inl e
      | Inr s \<Rightarrow>
          (case idxmin E s of
             Inl e \<Rightarrow> Inl e
           | Inr lo \<Rightarrow>
               (case idxmax E s of
                  Inl e \<Rightarrow> Inl e
                | Inr hi \<Rightarrow>
                    Inr \<lparr>mean_pct_change = nanmean (map snd s),
                         median_pct_change = nanmedian (map snd s),
                         std_pct_change = series_std E (map snd s),
                         most_impacted_country = lo,
                         most_impacted_value = nanmin (map snd s),
                         least_impacted_country = hi,
                         least_impacted_value = nanmax (map snd s)\<rparr>)))"

definition aggregate :: "env \<Rightarrow> frame \<Rightarrow> exn + results \<times> summary" where
  "aggregate E df =
     (case pre_covid df of
        Inl e \<Rightarrow> Inl e
      | Inr pre \<Rightarrow>
          (case during_covid df of
             Inl e \<Rightarrow> Inl e
           | Inr during \<Rightarrow>
               (case post_covid df of
                  Inl e \<Rightarrow> Inl e
                | Inr post \<Rightarrow>
                    (let res = country_results pre during post (countries df)
                     in case global_metrics E res of
                          Inl e \<Rightarrow> Inl e
                        | Inr gm \<Rightarrow> Inr (res, gm)))))"

section \<open>The t-test\<close>

text \<open>
  \<open>.iloc[:, 1:-1]\<close> keeps the columns by position, all but the first and the last;
  \<open>.values.flatten()\<close> lists the cells row by row.
\<close>

definition iloc_inner :: "frame \<Rightarrow> string list" where
  "iloc_inner df = butlast (tl (columns df))"

definition values_flatten :: "string list \<Rightarrow> frame \<Rightarrow> cell list" where
  "values_flatten cs df = concat (transpose (map (data df) cs))"

definition ttest_sample :: "int list \<Rightarrow> frame \<Rightarrow> exn + cell list" where
  "ttest_sample ys df =
     (case period (isin ys) df of
        Inl e \<Rightarrow> Inl e
      | Inr sel \<Rightarrow> Inr (values_flatten (iloc_inner sel) sel))"

definition ttest :: "env \<Rightarrow> frame \<Rightarrow> exn + fl \<times> fl" where
  "ttest E df =
     (case ttest_sample [2018, 2019] df of
        Inl e \<Rightarrow> Inl e
      | Inr a \<Rightarrow>
          (case ttest_sample [2020, 2021, 2022] df of
             Inl e \<Rightarrow> Inl e
           | Inr b \<Rightarrow> ttest_ind E a b))"

section \<open>The analysis and the script\<close>

text \<open>
  The stages of a run, recorded as they are entered. The body of the \<open>try\<close> in
  \<open>analyze_covid_impact\<close> returns the stages it entered and either the exception that
  ended it or its result.
\<close>

datatype stage = Load | Clean | Aggregate | Test | Plot | Print

definition with_ttest :: "summary \<Rightarrow> fl \<Rightarrow> fl \<Rightarrow> metrics" where
  "with_ttest gm t p =
     \<lparr>mean_pct_change = mean_pct_change gm,
      median_pct_change = median_pct_change gm,
      std_pct_change = std_pct_change gm,
      most_impacted_country = most_impacted_country gm,
      most_impacted_value = most_impacted_value gm,
      least_impacted_country = least_impacted_country gm,
      least_impacted_value = least_impacted_value gm,
      t_statistic = t,
      p_value = p\<rparr>"

definition prepare :: "env \<Rightarrow> string \<Rightarrow> exn + frame" where
  "prepare E file_path =
     (case load E file_path of
        Inl e \<Rightarrow> Inl e
      | Inr df \<Rightarrow> preprocess E (clean_frame E df))"

definition try_body :: "env \<Rightarrow> string \<Rightarrow> stage list \<times> (exn + results \<times> metrics)" where
  "try_body E file_path =
     (case load E file_path of
        Inl e \<Rightarrow> ([Load], Inl e)
      | Inr df0 \<Rightarrow>
          (case preprocess E (clean_frame E df0) of
             Inl e \<Rightarrow> ([Load, Clean], Inl e)
           | Inr df \<Rightarrow>
               (case aggregate E df of
                  Inl e \<Rightarrow> ([Load, Clean, Aggregate], Inl e)
                | Inr (res, gm) \<Rightarrow>
                    (case ttest E df of
                       Inl e \<Rightarrow> ([Load, Clean, Aggregate, Test], Inl e)
                     | Inr (t, p) \<Rightarrow>
                         ([Load, Clean, Aggregate, Test], Inr (res, with_ttest gm t p))))))"

text \<open>
  \<open>except Exception\<close> catches every exception of \<open>exn\<close> (all are subclasses of
  \<open>Exception\<close>) and the function returns \<open>(None, None)\<close>: here \<open>None\<close>.
\<close>

definition analyze_covid_impact :: "env \<Rightarrow> string \<Rightarrow> (results \<times> metrics) option" where
  "analyze_covid_impact E file_path =
     (case snd (try_body E file_path) of Inl e \<Rightarrow> None | Inr r \<Rightarrow> Some r)"

text \<open>
  \<open>create_visualizations\<close> has no guard: on \<open>None\<close> the call
  \<open>results_df.sort_values\<close> raises AttributeError. Otherwise the charts are drawn.
\<close>

definition create_visualizations :: "env \<Rightarrow> results option \<Rightarrow> metrics option \<Rightarrow> exn option" where
  "create_visualizations E results_df gm =
     (case results_df of
        None \<Rightarrow> Some (AttributeError ''NoneType object has no attribute sort_values'')
      | Some res \<Rightarrow> render E res)"

text \<open>
  What \<open>print_results\<close> writes: headings, labelled numbers, labelled countries and the
  two rankings. \<open>sort_values\<close> puts NaN last in both directions; the order of equal
  values is that of a stable sort here.
\<close>

datatype out =
    Heading string
  | Value string fl
  | Country string "string option" fl
  | Ranking "(string \<times> fl) list"

fun desc_rank :: "fl \<Rightarrow> int \<times> rat" where
  "desc_rank NaN = (2, 0)"
| "desc_rank x = sort_rank (fneg x)"

definition pct_rows :: "results \<Rightarrow> (string \<times> fl) list" where
  "pct_rows res = map (\<lambda>(c, r). (c, pct_change_during_covid r)) res"

definition print_results :: "results option \<Rightarrow> metrics option \<Rightarrow> out list" where
  "print_results results_df global =
     (case (results_df, global) of
        (Some res, Some gm) \<Rightarrow>
          [Heading ''=== Global Impact Summary ==='',
           Value ''Mean percentage change during COVID'' (mean_pct_change gm),
           Value ''Median percentage change during COVID'' (median_pct_change gm),
           Value ''Standard deviation of change'' (std_pct_change gm),
           Heading ''=== Most and Least Impacted Countries ==='',
           Country ''Most impacted country'' (most_impacted_country gm) (most_impacted_value gm),
           Country ''Least impacted country'' (least_impacted_country gm) (least_impacted_value gm),
           Heading ''=== Statistical Significance ==='',
           Value ''t-statistic'' (t_statistic gm),
           Value ''p-value'' (p_value gm),
           Heading ''=== Top 5 Most Negatively Impacted Countries ==='',
           Ranking (take 5 (sort_key (\<lambda>(c, x). sort_rank x) (pct_rows res))),
           Heading ''=== Top 5 Least Impacted/Positive Growth Countries ==='',
           Ranking (take 5 (sort_key (\<lambda>(c, x). desc_rank x) (pct_rows res)))]
      | _ \<Rightarrow> [])"

text \<open>
  The script: the analysis, then the charts, then the report. An exception of
  \<open>create_visualizations\<close> is caught by nothing and ends the run before the report.
\<close>

datatype outcome = Finished "out list" | Uncaught exn

definition script :: "env \<Rightarrow> string \<Rightarrow> stage list \<times> outcome" where
  "script E file_path =
     (let r = analyze_covid_impact E file_path;
          results_df = map_option fst r;
          global = map_option snd r
      in case create_visualizations E results_df global of
           Some e \<Rightarrow> (fst (try_body E file_path) @ [Plot], Uncaught e)
         | None \<Rightarrow>
             (fst (try_body E file_path) @ [Plot, Print],
              Finished (print_results results_df global)))"

definition main :: "env \<Rightarrow> stage list \<times> outcome" where
  "main E = script E ''fig_4.2.13.csv''"


section \<open>The periods and the samples as the specification words them\<close>

text \<open>
  The specification speaks of the rows whose Date falls in given years, of the mean of a
  country column over such rows, and of the pooled values of the country columns over
  such rows. These definitions follow its words; the theorems compare them with what the
  program computes.
\<close>

fun date_year_in :: "int list \<Rightarrow> cell \<Rightarrow> bool" where
  "date_year_in ys (Time (Stamp y m d)) = (y \<in> set ys)"
| "date_year_in ys _ = False"

definition rows_in_years :: "int list \<Rightarrow> frame \<Rightarrow> string \<Rightarrow> cell list" where
  "rows_in_years ys df c =
     map snd (filter (\<lambda>(d, v). date_year_in ys d) (zip (data df ''Date'') (data df c)))"




text \<open>The table without the rows whose Date falls in none of the six years.\<close>

definition drop_other_years :: "frame \<Rightarrow> frame" where
  "drop_other_years df =
     select_rows (map (date_year_in [2018, 2019, 2020, 2021, 2022, 2023]) (data df ''Date'')) df"


section \<open>Sample runs\<close>

text \<open>
  Concrete libraries and files on which the definitions are evaluated: \<open>float\<close> and the
  date parser on the strings that occur, a standard deviation and a t-test that are right
  on the first table (percentage changes 50, 0 and -50; two samples of equal mean).
\<close>

definition sample_float :: "string \<Rightarrow> fl option" where
  "sample_float =
     map_of [(''0'', Fin 0), (''1'', Fin 1), (''2'', Fin 2), (''3'', Fin 3), (''4'', Fin 4),
             (''9'', Fin 9), (''-1'', Fin (- 1))]"

definition sample_strptime :: "cell \<Rightarrow> exn + stamp" where
  "sample_strptime v =
     (case v of
        Str s \<Rightarrow>
          (case map_of [(''1/1/18'', Stamp 2018 1 1), (''1/1/19'', Stamp 2019 1 1),
                        (''1/1/20'', Stamp 2020 1 1), (''1/1/21'', Stamp 2021 1 1),
                        (''1/1/23'', Stamp 2023 1 1), (''1/1/24'', Stamp 2024 1 1)] s of
             Some t \<Rightarrow> Inr t
           | None \<Rightarrow> Inl (ValueError s))
      | Num x \<Rightarrow> (if isnan x then Inr NaT else Inl (ValueError ''not a date''))
      | _ \<Rightarrow> Inl (ValueError ''not a date''))"

fun is_number :: "cell \<Rightarrow> bool" where
  "is_number (Num x) = True"
| "is_number (IntV i) = True"
| "is_number _ = False"

definition sample_ttest :: "cell list \<Rightarrow> cell list \<Rightarrow> exn + fl \<times> fl" where
  "sample_ttest a b =
     (if list_all is_number (a @ b) then Inr (Fin 0, Fin 1)
      else Inl (TypeError ''unsupported operand''))"

definition sample_env :: "frame \<Rightarrow> env" where
  "sample_env csv =
     \<lparr>path_exists = (\<lambda>p. p = ''fig_4.2.13.csv''),
      read_csv = (\<lambda>p. Inr csv),
      str_float = sample_float,
      strptime = sample_strptime,
      series_std = (\<lambda>xs. if xs = [Fin 50, Fin 0, Fin (- 50)] then Fin 50 else NaN),
      idx_all_nan = None,
      ttest_ind = sample_ttest,
      render = (\<lambda>res. None)\<rparr>"

definition sample_table :: frame where
  "sample_table =
     \<lparr>columns = [''Date'', ''USA'', ''India'', ''Japan''],
      data = (\<lambda>c. [])
        (''Date'' := [Str ''1/1/18'', Str ''1/1/19'', Str ''1/1/20'', Str ''1/1/21'',
                     Str ''1/1/23'', Str ''1/1/24''],
         ''USA'' := [Str ''2%'', Str ''2%'', Str ''3%'', Str ''3%'', Str ''4%'', Str ''9%''],
         ''India'' := [Str ''2%'', Str ''2%'', Str ''2%'', Str ''2%'', Str ''2%'', Str ''n/a''],
         ''Japan'' := [Str ''2%'', Str ''2%'', Str ''1%'', Str ''1%'', Str ''2%'', Str ''9%''])\<rparr>"

text \<open>A file that already has a Year column, between Date and the one country.\<close>

definition year_table :: frame where
  "year_table =
     \<lparr>columns = [''Date'', ''Year'', ''USA''],
      data = (\<lambda>c. [])
        (''Date'' := [Str ''1/1/18'', Str ''1/1/20''],
         ''Year'' := [IntV 2018, IntV 2020],
         ''USA'' := [Str ''2%'', Str ''3%''])\<rparr>"


text \<open>A machine on which the file of the script does not exist.\<close>

definition no_file_env :: env where
  "no_file_env = (sample_env sample_table)\<lparr>path_exists := (\<lambda>p. False)\<rparr>"

text \<open>The table of the first sample run once loaded, cleaned and preprocessed.\<close>

definition sample_prepared :: frame where
  "sample_prepared =
     (case prepare (sample_env sample_table) ''fig_4.2.13.csv'' of
        Inr df \<Rightarrow> df
      | Inl e \<Rightarrow> \<lparr>columns = [], data = (\<lambda>c. [])\<rparr>)"

text \<open>The table of the file that has a Year column, once prepared.\<close>

definition year_prepared :: frame where
  "year_prepared =
     (case prepare (sample_env year_table) ''fig_4.2.13.csv'' of
        Inr df \<Rightarrow> df
      | Inl e \<Rightarrow> \<lparr>columns = [], data = (\<lambda>c. [])\<rparr>)"

section \<open>The cleaner is total\<close>










section \<open>Failures and the order of the stages\<close>

lemma try_body_stages:
  "fst (try_body E p) \<in>
     {[Load], [Load, Clean], [Load, Clean, Aggregate], [Load, Clean, Aggregate, Test]}"
  by (simp add: try_body_def split: sum.splits prod.splits)


lemma analyze_None_iff:
  "analyze_covid_impact E p = None \<longleftrightarrow> (\<exists>e. snd (try_body E p) = Inl e)"
  by (cases "snd (try_body E p)") (simp_all add: analyze_covid_impact_def)






text \<open>
  Claim C8. When the analysis returns \<open>(None, None)\<close>, \<open>print_results\<close> on it prints
  nothing, but \<open>create_visualizations\<close> on it raises AttributeError; the script calls it
  all the same, so the run ends on that uncaught exception, at the plotting stage and
  before the report.
\<close>

theorem unguarded_visualization:
  "analyze_covid_impact E p = None \<longrightarrow>
     print_results None None = []
     \<and> create_visualizations E None None =
         Some (AttributeError ''NoneType object has no attribute sort_values'')
     \<and> snd (script E p) = Uncaught (AttributeError ''NoneType object has no attribute sort_values'')
     \<and> Print \<notin> set (fst (script E p))
     \<and> last (fst (script E p)) = Plot"
  using try_body_stages [of E p]
  by (auto simp: script_def print_results_def create_visualizations_def)

theorem unguarded_visualization_witness:
  "analyze_covid_impact no_file_env ''fig_4.2.13.csv'' = None
   \<and> main no_file_env =
       ([Load, Plot], Uncaught (AttributeError ''NoneType object has no attribute sort_values''))"
  using unguarded_visualization [of no_file_env "''fig_4.2.13.csv''"]
  by (simp add: main_def script_def try_body_def load_def analyze_covid_impact_def
      create_visualizations_def no_file_env_def sample_env_def)




section \<open>The prepared table\<close>

lemma to_datetime_length: "to_datetime E vs = Inr ts \<Longrightarrow> length ts = length vs"
  by (induction vs arbitrary: ts) (auto split: sum.splits)

lemma preprocess_Inr:
  assumes "preprocess E d = Inr df"
  obtains ts where "''Date'' \<in> set (columns d)"
    and "to_datetime E (data d ''Date'') = Inr ts"
    and "df = setitem (setitem d ''Date'' (map Time ts)) ''Year'' (map dt_year ts)"
  using assms by (auto simp: preprocess_def getitem_def split: sum.splits if_splits)

lemma prepared_shape:
  assumes "preprocess E d = Inr df"
  shows "\<exists>ts. data df ''Date'' = map Time ts \<and> data df ''Year'' = map dt_year ts
           \<and> (\<forall>c. c \<noteq> ''Date'' \<and> c \<noteq> ''Year'' \<longrightarrow> data df c = data d c)
           \<and> columns df = (if ''Year'' \<in> set (columns d) then columns d
                            else columns d @ [''Year''])
           \<and> ''Date'' \<in> set (columns d)"
proof -
  from assms obtain ts where 1: "''Date'' \<in> set (columns d)"
    and 3: "df = setitem (setitem d ''Date'' (map Time ts)) ''Year'' (map dt_year ts)"
    by (rule preprocess_Inr)
  show ?thesis
    by (rule exI [of _ ts]) (use 1 in \<open>simp add: 3 setitem_def\<close>)
qed

lemma isin_dt_year: "isin ys (dt_year t) = date_year_in ys (Time t)"
  by (cases t) simp_all

lemma eq_year_dt_year: "eq_year y (dt_year t) = date_year_in [y] (Time t)"
  by (cases t) simp_all

lemma select_isin:
  "map snd (filter fst (zip (map (isin ys) (map dt_year ts)) vs)) =
   map snd (filter (\<lambda>(d, v). date_year_in ys d) (zip (map Time ts) vs))"
proof (induction ts arbitrary: vs)
  case Nil
  then show ?case by simp
next
  case (Cons t ts)
  then show ?case by (cases vs) (simp_all add: isin_dt_year)
qed

lemma select_eq_year:
  "map snd (filter fst (zip (map (eq_year y) (map dt_year ts)) vs)) =
   map snd (filter (\<lambda>(d, v). date_year_in [y] d) (zip (map Time ts) vs))"
proof (induction ts arbitrary: vs)
  case Nil
  then show ?case by simp
next
  case (Cons t ts)
  then show ?case by (cases vs) (simp_all add: eq_year_dt_year)
qed

lemma prepared_periods:
  assumes "preprocess E d = Inr df"
  shows "period (isin ys) df = Inr (df\<lparr>data := rows_in_years ys df\<rparr>)"
    and "period (eq_year y) df = Inr (df\<lparr>data := rows_in_years [y] df\<rparr>)"
proof -
  from prepared_shape [OF assms] obtain ts where
    d: "data df ''Date'' = map Time ts" and y: "data df ''Year'' = map dt_year ts"
    and c: "columns df = (if ''Year'' \<in> set (columns d) then columns d else columns d @ [''Year''])"
    by blast
  have g: "getitem df ''Year'' = Inr (map dt_year ts)"
    using c y by (simp add: getitem_def)
  have a: "(\<lambda>c. map snd (filter fst (zip (map (isin ys) (map dt_year ts)) (data df c)))) =
             rows_in_years ys df"
    by (rule ext) (simp only: rows_in_years_def d select_isin)
  have b: "(\<lambda>c. map snd (filter fst (zip (map (eq_year y) (map dt_year ts)) (data df c)))) =
             rows_in_years [y] df"
    by (rule ext) (simp only: rows_in_years_def d select_eq_year)
  show "period (isin ys) df = Inr (df\<lparr>data := rows_in_years ys df\<rparr>)"
    by (simp add: period_def g select_rows_def a del: map_map)
  show "period (eq_year y) df = Inr (df\<lparr>data := rows_in_years [y] df\<rparr>)"
    by (simp add: period_def g select_rows_def b del: map_map)
qed

lemma prepare_Inr:
  "prepare E p = Inr df \<Longrightarrow> \<exists>df0. load E p = Inr df0 \<and> preprocess E (clean_frame E df0) = Inr df"
  by (auto simp: prepare_def split: sum.splits)

lemma date_year_in_cases:
  "date_year_in ys d \<longleftrightarrow> (\<exists>y m dd. d = Time (Stamp y m dd) \<and> y \<in> set ys)"
  by (induction ys d rule: date_year_in.induct) simp_all

lemma periods_disjoint:
  "\<not> (date_year_in [2018, 2019] d \<and> date_year_in [2020, 2021, 2022] d)"
  "\<not> (date_year_in [2018, 2019] d \<and> date_year_in [2023] d)"
  "\<not> (date_year_in [2020, 2021, 2022] d \<and> date_year_in [2023] d)"
  by (auto simp: date_year_in_cases)

text \<open>
  Claim C2. The rows of a table that was loaded, cleaned and preprocessed are grouped by
  the year of their Date: the Year column is the year of the Date column, the pre-COVID
  table is exactly the rows whose Date has year 2018 or 2019, the during-COVID table
  exactly those of 2020, 2021 or 2022, the post-COVID table exactly those of 2023, and no
  row is in two of the periods.
\<close>

theorem periods_by_year:
  assumes "prepare E p = Inr df"
  shows "(\<exists>ts. data df ''Date'' = map Time ts \<and> data df ''Year'' = map dt_year ts)
    \<and> pre_covid df = Inr (df\<lparr>data := rows_in_years [2018, 2019] df\<rparr>)
    \<and> during_covid df = Inr (df\<lparr>data := rows_in_years [2020, 2021, 2022] df\<rparr>)
    \<and> post_covid df = Inr (df\<lparr>data := rows_in_years [2023] df\<rparr>)
    \<and> (\<forall>d. \<not> (date_year_in [2018, 2019] d \<and> date_year_in [2020, 2021, 2022] d)
           \<and> \<not> (date_year_in [2018, 2019] d \<and> date_year_in [2023] d)
           \<and> \<not> (date_year_in [2020, 2021, 2022] d \<and> date_year_in [2023] d))"
proof -
  from prepare_Inr [OF assms] obtain df0 where
    pp: "preprocess E (clean_frame E df0) = Inr df" by blast
  from prepared_shape [OF pp] have
    "\<exists>ts. data df ''Date'' = map Time ts \<and> data df ''Year'' = map dt_year ts" by blast
  then show ?thesis
    using prepared_periods [OF pp] periods_disjoint
    by (simp add: pre_covid_def during_covid_def post_covid_def)
qed









lemma sample_prepare:
  "prepare (sample_env sample_table) ''fig_4.2.13.csv'' = Inr sample_prepared"
proof (cases "prepare (sample_env sample_table) ''fig_4.2.13.csv''")
  case (Inl e)
  moreover have "\<not> isl (prepare (sample_env sample_table) ''fig_4.2.13.csv'')"
    by code_simp
  ultimately show ?thesis by simp
next
  case (Inr df)
  then show ?thesis by (simp add: sample_prepared_def)
qed

lemma sample_rows:
  "rows_in_years [2018, 2019] sample_prepared ''USA'' = [Num (Fin 2), Num (Fin 2)]"
  "rows_in_years [2020, 2021, 2022] sample_prepared ''USA'' = [Num (Fin 3), Num (Fin 3)]"
  "rows_in_years [2023] sample_prepared ''USA'' = [Num (Fin 4)]"
  "data sample_prepared ''Date'' =
     [Time (Stamp 2018 1 1), Time (Stamp 2019 1 1), Time (Stamp 2020 1 1),
      Time (Stamp 2021 1 1), Time (Stamp 2023 1 1), Time (Stamp 2024 1 1)]"
  "data sample_prepared ''Year'' =
     [IntV 2018, IntV 2019, IntV 2020, IntV 2021, IntV 2023, IntV 2024]"
  "columns sample_prepared = [''Date'', ''USA'', ''India'', ''Japan'', ''Year'']"
  by code_simp+

theorem periods_by_year_witness:
  "prepare (sample_env sample_table) ''fig_4.2.13.csv'' = Inr sample_prepared
   \<and> pre_covid sample_prepared =
       Inr (sample_prepared\<lparr>data := rows_in_years [2018, 2019] sample_prepared\<rparr>)
   \<and> rows_in_years [2018, 2019] sample_prepared ''USA'' = [Num (Fin 2), Num (Fin 2)]
   \<and> rows_in_years [2020, 2021, 2022] sample_prepared ''USA'' = [Num (Fin 3), Num (Fin 3)]
   \<and> rows_in_years [2023] sample_prepared ''USA'' = [Num (Fin 4)]
   \<and> data sample_prepared ''Year'' =
       [IntV 2018, IntV 2019, IntV 2020, IntV 2021, IntV 2023, IntV 2024]"
  using periods_by_year [OF sample_prepare] sample_prepare sample_rows by simp



section \<open>The samples of the t-test\<close>







lemma year_prepare:
  "prepare (sample_env year_table) ''fig_4.2.13.csv'' = Inr year_prepared"
proof (cases "prepare (sample_env year_table) ''fig_4.2.13.csv''")
  case (Inl e)
  moreover have "\<not> isl (prepare (sample_env year_table) ''fig_4.2.13.csv'')"
    by code_simp
  ultimately show ?thesis by simp
next
  case (Inr df)
  then show ?thesis by (simp add: year_prepared_def)
qed




section \<open>Rows outside the periods\<close>

lemma select_twice:
  assumes "\<And>y. p y \<Longrightarrow> k y"
  shows "map snd (filter fst (zip (map p (map snd (filter fst (zip (map k ys) ys))))
                                   (map snd (filter fst (zip (map k ys) vs))))) =
         map snd (filter fst (zip (map p ys) vs))"
proof (induction ys arbitrary: vs)
  case Nil
  then show ?case by simp
next
  case (Cons y ys)
  show ?case
  proof (cases vs)
    case Nil
    then show ?thesis by simp
  next
    case (Cons v vs')
    with Cons.IH [of vs'] assms [of y] show ?thesis by auto
  qed
qed


lemma isin_cases: "isin ys y \<longleftrightarrow> (\<exists>i. y = IntV i \<and> i \<in> set ys)"
  by (cases y) simp_all

lemma eq_year_cases: "eq_year a y \<longleftrightarrow> y = IntV a"
  by (cases y) auto

lemma six_years:
  "isin [2018, 2019] y \<Longrightarrow> isin [2018, 2019, 2020, 2021, 2022, 2023] y"
  "isin [2020, 2021, 2022] y \<Longrightarrow> isin [2018, 2019, 2020, 2021, 2022, 2023] y"
  "eq_year 2023 y \<Longrightarrow> isin [2018, 2019, 2020, 2021, 2022, 2023] y"
  by (auto simp: isin_cases eq_year_cases)

lemma period_drop:
  assumes "preprocess E d = Inr df"
    and "\<And>y. p y \<Longrightarrow> isin [2018, 2019, 2020, 2021, 2022, 2023] y"
  shows "period p (drop_other_years df) = period p df"
proof -
  define ys where "ys = data df ''Year''"
  define k where "k = isin [2018, 2019, 2020, 2021, 2022, 2023]"
  from prepared_shape [OF assms(1)] obtain ts where
    d: "data df ''Date'' = map Time ts" and y: "data df ''Year'' = map dt_year ts"
    and c: "columns df = (if ''Year'' \<in> set (columns d) then columns d else columns d @ [''Year''])"
    by blast
  have m: "map (date_year_in [2018, 2019, 2020, 2021, 2022, 2023]) (data df ''Date'') = map k ys"
    by (simp add: d y ys_def k_def isin_dt_year)
  have g: "''Year'' \<in> set (columns df)" using c by simp
  have dr: "drop_other_years df =
              df\<lparr>data := \<lambda>c. map snd (filter fst (zip (map k ys) (data df c)))\<rparr>"
    by (simp only: drop_other_years_def select_rows_def m)
  have 1: "period p df = Inr (df\<lparr>data := \<lambda>c. map snd (filter fst (zip (map p ys) (data df c)))\<rparr>)"
    using g by (simp add: period_def getitem_def select_rows_def ys_def)
  have 2: "period p (drop_other_years df) =
             Inr (df\<lparr>data := \<lambda>c. map snd (filter fst
                    (zip (map p (map snd (filter fst (zip (map k ys) ys))))
                         (map snd (filter fst (zip (map k ys) (data df c))))))\<rparr>)"
    using g by (simp add: dr period_def getitem_def select_rows_def ys_def [symmetric])
  have 3: "(\<lambda>c. map snd (filter fst
                    (zip (map p (map snd (filter fst (zip (map k ys) ys))))
                         (map snd (filter fst (zip (map k ys) (data df c))))))) =
           (\<lambda>c. map snd (filter fst (zip (map p ys) (data df c))))"
    by (rule ext, rule select_twice) (simp add: k_def assms(2))
  show ?thesis by (simp only: 1 2 3)
qed

lemma columns_drop: "columns (drop_other_years df) = columns df"
  by (simp add: drop_other_years_def select_rows_def)

text \<open>
  Claim C10. A row whose Date falls in none of the years 2018 to 2023 is in none of the
  three periods, and it contributes nothing: the three period tables, the per-country
  means and percentage changes with the global metrics computed from them, and both
  samples of the t-test are those of the table without such rows. The sample run shows a
  table that the periods do not cover.
\<close>

theorem other_years_ignored:
  assumes "prepare E p = Inr df"
  shows "pre_covid (drop_other_years df) = pre_covid df
    \<and> during_covid (drop_other_years df) = during_covid df
    \<and> post_covid (drop_other_years df) = post_covid df
    \<and> aggregate E (drop_other_years df) = aggregate E df
    \<and> ttest_sample [2018, 2019] (drop_other_years df) = ttest_sample [2018, 2019] df
    \<and> ttest_sample [2020, 2021, 2022] (drop_other_years df) =
          ttest_sample [2020, 2021, 2022] df
    \<and> ttest E (drop_other_years df) = ttest E df
    \<and> (\<forall>d. \<not> date_year_in [2018, 2019, 2020, 2021, 2022, 2023] d \<longrightarrow>
           \<not> date_year_in [2018, 2019] d \<and> \<not> date_year_in [2020, 2021, 2022] d
           \<and> \<not> date_year_in [2023] d)"
proof -
  from prepare_Inr [OF assms] obtain df0 where
    pp: "preprocess E (clean_frame E df0) = Inr df" by blast
  have a: "period (isin [2018, 2019]) (drop_other_years df) = period (isin [2018, 2019]) df"
    by (rule period_drop [OF pp]) (rule six_years(1))
  have b: "period (isin [2020, 2021, 2022]) (drop_other_years df) =
           period (isin [2020, 2021, 2022]) df"
    by (rule period_drop [OF pp]) (rule six_years(2))
  have c: "period (eq_year 2023) (drop_other_years df) = period (eq_year 2023) df"
    by (rule period_drop [OF pp]) (rule six_years(3))
  have cs: "countries (drop_other_years df) = countries df"
    by (simp add: countries_def columns_drop)
  have ag: "aggregate E (drop_other_years df) = aggregate E df"
    by (simp only: aggregate_def pre_covid_def during_covid_def post_covid_def a b c cs)
  have s1: "ttest_sample [2018, 2019] (drop_other_years df) = ttest_sample [2018, 2019] df"
    by (simp only: ttest_sample_def a)
  have s2: "ttest_sample [2020, 2021, 2022] (drop_other_years df) =
            ttest_sample [2020, 2021, 2022] df"
    by (simp only: ttest_sample_def b)
  have tt: "ttest E (drop_other_years df) = ttest E df"
    by (simp only: ttest_def s1 s2)
  have out: "\<forall>d. \<not> date_year_in [2018, 2019, 2020, 2021, 2022, 2023] d \<longrightarrow>
           \<not> date_year_in [2018, 2019] d \<and> \<not> date_year_in [2020, 2021, 2022] d
           \<and> \<not> date_year_in [2023] d"
    by (auto simp: date_year_in_cases)
  from a b c ag s1 s2 tt out show ?thesis
    by (simp only: pre_covid_def during_covid_def post_covid_def simp_thms)
qed


theorem other_years_ignored_witness:
  "prepare (sample_env sample_table) ''fig_4.2.13.csv'' = Inr sample_prepared
   \<and> length (data sample_prepared ''USA'') = 6
   \<and> length (data (drop_other_years sample_prepared) ''USA'') = 5
   \<and> length (rows_in_years [2018, 2019] sample_prepared ''USA'')
       + length (rows_in_years [2020, 2021, 2022] sample_prepared ''USA'')
       + length (rows_in_years [2023] sample_prepared ''USA'') = 5
   \<and> aggregate (sample_env sample_table) (drop_other_years sample_prepared) =
       aggregate (sample_env sample_table) sample_prepared
   \<and> ttest_sample [2018, 2019] (drop_other_years sample_prepared) =
       ttest_sample [2018, 2019] sample_prepared"
proof -
  have "length (data sample_prepared ''USA'') = 6"
    "length (data (drop_other_years sample_prepared) ''USA'') = 5"
    "length (rows_in_years [2018, 2019] sample_prepared ''USA'')
       + length (rows_in_years [2020, 2021, 2022] sample_prepared ''USA'')
       + length (rows_in_years [2023] sample_prepared ''USA'') = 5"
    by code_simp+
  then show ?thesis
    using other_years_ignored [OF sample_prepare] sample_prepare by simp
qed

section \<open>Minimum, maximum and median\<close>





lemma fle_not_nan: "fle a b \<Longrightarrow> \<not> isnan a \<and> \<not> isnan b"
  by (cases a; cases b) simp_all
















section \<open>The most and the least impacted country\<close>




















end
